theory Spec2Isabelle
  imports Main "HOL-Library.Sublist"
begin

section \<open>MockServer client: data model\<close>

text \<open>
  The class \<^verbatim>\<open>MockServerClient\<close> (the module \<^verbatim>\<open>mockserver-client.ts\<close>, which follows
  the entry point in \<^verbatim>\<open>src/index.ts\<close>) with the types of \<^verbatim>\<open>src/types/mockserver.ts\<close>
  and \<^verbatim>\<open>src/types/errors.ts\<close>. Every method of the class is asynchronous and awaits
  its one call to \<^verbatim>\<open>request\<close>; here a method is a function from the platform's behaviour
  to the value the promise resolves to (\<open>Inr\<close>) or the failure it rejects with (\<open>Inl\<close>),
  together with the calls made to \<^verbatim>\<open>fetch\<close>.

  JavaScript numbers occur only as status codes, ports, counts and durations, which the
  client passes on without arithmetic; they are integers here. Strings are byte lists
  (UTF-8); every pattern the client searches for is ASCII.
\<close>

subsection \<open>Values read from a response\<close>

text \<open>
  What \<^verbatim>\<open>JSON.parse\<close> returns. An object is its list of own properties (keys distinct,
  as the parser leaves them). A JavaScript string is \<open>JStr\<close>, whether it was parsed or
  is raw text.
\<close>

datatype json =
    JNull
  | JBool bool
  | JNum int
  | JStr string
  | JArr "json list"
  | JObj "(string \<times> json) list"

subsection \<open>types/mockserver.ts\<close>

datatype BodyMatcherType = STRING | JSON | REGEX | XPATH | JSON_PATH

datatype MatchType = STRICT | ONLY_MATCHING_FIELDS

record BodyMatcher =
  bm_type :: BodyMatcherType
  bm_value :: string
  matchType :: "MatchType option"

record RequestMatcher =
  rm_method :: "string option"
  rm_path :: "string option"
  pathParameters :: "(string \<times> string list) list option"
  queryStringParameters :: "(string \<times> string list) list option"
  rm_headers :: "(string \<times> string list) list option"
  rm_body :: "BodyMatcher option"

datatype TimeUnit = MILLISECONDS | SECONDS | MINUTES

record ResponseDelay =
  timeUnit :: TimeUnit
  delay_value :: int

record HttpResponse =
  statusCode :: "int option"
  hr_headers :: "(string \<times> string list) list option"
  hr_body :: "(string + json) option"
  delay :: "ResponseDelay option"

record ExpectationTimes =
  remainingTimes :: int
  unlimited :: bool

record TimeToLive =
  ttl_timeUnit :: TimeUnit
  timeToLive :: int

record Expectation =
  exp_id :: "string option"
  httpRequest :: RequestMatcher
  httpResponse :: "HttpResponse option"
  exp_times :: "ExpectationTimes option"
  exp_timeToLive :: "TimeToLive option"

record Times =
  atLeast :: "int option"
  atMost :: "int option"
  exactly :: "int option"

record VerificationResult =
  success :: bool
  matchedCount :: int
  vr_message :: "string option"

text \<open>
  \<open>host\<close> is an element of an array destructuring and \<open>port\<close> a result of
  \<^verbatim>\<open>parseInt\<close>: \<open>None\<close> is \<^verbatim>\<open>undefined\<close>, \<open>NaN\<close> is not-a-number.
  \<open>version\<close> is whatever the response's \<^verbatim>\<open>version\<close> property holds (the cast to
  string is unchecked).
\<close>

datatype js_number = Num int | NaN

record ServerStatus =
  host :: "string option"
  port :: js_number
  reachable :: bool
  version :: "json option"

subsection \<open>types/errors.ts\<close>

datatype ErrorCode =
    CONNECTION_FAILED
  | CONNECTION_TIMEOUT
  | INVALID_PARAMETERS
  | MISSING_REQUIRED_FIELD
  | MOCKSERVER_ERROR
  | VERIFICATION_FAILED
  | EXPECTATION_NOT_FOUND
  | UNKNOWN_ERROR

record ToolError =
  code :: ErrorCode
  message :: string
  details :: "(string \<times> json) list option"

subsection \<open>The transport\<close>

text \<open>
  A value that JavaScript code throws or a promise rejects with: a \<open>ToolError\<close>, another
  instance of \<^verbatim>\<open>Error\<close> (its \<^verbatim>\<open>name\<close> and \<^verbatim>\<open>message\<close>), or a value that is
  no \<^verbatim>\<open>Error\<close> (as \<^verbatim>\<open>String(error)\<close> renders it).
\<close>

datatype thrown =
    Tool ToolError
  | PlainError string string
  | NonError string

text \<open>
  The response of \<^verbatim>\<open>fetch\<close>: its status and what \<^verbatim>\<open>response.text()\<close> settles to,
  the body or a rejection.
\<close>

record Response =
  status :: nat
  body_text :: "thrown + string"

definition ok :: "Response \<Rightarrow> bool" where
  "ok r = (200 \<le> status r \<and> status r \<le> 299)"

text \<open>
  The body of a request, as handed to \<^verbatim>\<open>JSON.stringify\<close>: the expectation itself for
  \<^verbatim>\<open>createExpectation\<close>, an object literal otherwise.
\<close>

datatype field = MatcherField RequestMatcher | TimesField Times

datatype payload = ExpectationBody Expectation | ObjectBody "(string \<times> field) list"

record fetch_call =
  url :: string
  http_method :: string
  headers :: "(string \<times> string) list"
  body :: payload

text \<open>
  The platform: \<^verbatim>\<open>fetch\<close> answers a call with a response or rejects (the abort of the
  timeout clock is a rejection named \<^verbatim>\<open>AbortError\<close>), and \<^verbatim>\<open>JSON.parse\<close> returns a
  value or throws (\<open>None\<close>).
\<close>

record env =
  fetch :: "fetch_call \<Rightarrow> thrown + Response"
  JSON_parse :: "string \<Rightarrow> json option"

section \<open>String functions of the platform\<close>

text \<open>\<^verbatim>\<open>s.includes(pat)\<close>.\<close>

fun string_includes :: "string \<Rightarrow> string \<Rightarrow> bool" where
  "string_includes [] pat = (pat = [])"
| "string_includes (c # cs) pat = (prefix pat (c # cs) \<or> string_includes cs pat)"

text \<open>
  \<^verbatim>\<open>s.replace(pat, rep)\<close> for a string pattern: the first occurrence only
  (\<open>rep\<close> without \<^verbatim>\<open>$\<close> patterns).
\<close>

fun replace_first :: "string \<Rightarrow> string \<Rightarrow> string \<Rightarrow> string" where
  "replace_first [] pat rep = (if pat = [] then rep else [])"
| "replace_first (c # cs) pat rep =
     (if prefix pat (c # cs) then rep @ drop (length pat) (c # cs)
      else c # replace_first cs pat rep)"

text \<open>\<^verbatim>\<open>s.split(sep)\<close> for a one-character separator; the result is never empty.\<close>

fun split :: "string \<Rightarrow> char \<Rightarrow> string list" where
  "split [] sep = [[]]"
| "split (c # cs) sep =
     (if c = sep then [] # split cs sep
      else (case split cs sep of
              [] \<Rightarrow> [[c]]
            | p # ps \<Rightarrow> (c # p) # ps))"

text \<open>An element of an array destructuring: \<^verbatim>\<open>undefined\<close> past the end.\<close>

fun element :: "'a list \<Rightarrow> nat \<Rightarrow> 'a option" where
  "element [] i = None"
| "element (x # xs) 0 = Some x"
| "element (x # xs) (Suc i) = element xs i"

text \<open>
  Decimal digits, and an integer in a template literal (\<^verbatim>\<open>`${n}`\<close>; JavaScript writes an
  integer this way up to \<open>10\<^sup>2\<^sup>1\<close>).
\<close>

definition digit_char :: "nat \<Rightarrow> char" where
  "digit_char d = char_of (of_char CHR ''0'' + d :: nat)"

definition is_digit :: "char \<Rightarrow> bool" where
  "is_digit c = (of_char CHR ''0'' \<le> (of_char c :: nat) \<and> (of_char c :: nat) \<le> of_char CHR ''9'')"

definition is_lower :: "char \<Rightarrow> bool" where
  "is_lower c = (of_char CHR ''a'' \<le> (of_char c :: nat) \<and> (of_char c :: nat) \<le> of_char CHR ''z'')"

definition is_upper :: "char \<Rightarrow> bool" where
  "is_upper c = (of_char CHR ''A'' \<le> (of_char c :: nat) \<and> (of_char c :: nat) \<le> of_char CHR ''Z'')"

definition digit_value :: "char \<Rightarrow> nat" where
  "digit_value c = of_char c - of_char CHR ''0''"

fun digits :: "nat \<Rightarrow> string" where
  "digits n = (if n < 10 then [digit_char n] else digits (n div 10) @ [digit_char (n mod 10)])"

declare digits.simps [simp del]

definition number_to_string :: "int \<Rightarrow> string" where
  "number_to_string n = (if n < 0 then CHR ''-'' # digits (nat (- n)) else digits (nat n))"

text \<open>
  \<^verbatim>\<open>parseInt(s, 10)\<close>: leading white space (the ASCII white space here), an optional
  sign, then the longest run of decimal digits; \<open>NaN\<close> when there is none.
\<close>

definition is_space :: "char \<Rightarrow> bool" where
  "is_space c = (c \<in> set [CHR '' '', CHR 0x09, CHR 0x0A, CHR 0x0B, CHR 0x0C, CHR 0x0D])"

definition digits_value :: "string \<Rightarrow> nat" where
  "digits_value ds = foldl (\<lambda>acc d. acc * 10 + digit_value d) 0 ds"

definition parseInt :: "string \<Rightarrow> js_number" where
  "parseInt s =
     (let t = dropWhile is_space s;
          (neg, u) = (case t of
                        [] \<Rightarrow> (False, [])
                      | c # cs \<Rightarrow> if c = CHR ''-'' then (True, cs)
                                  else if c = CHR ''+'' then (False, cs)
                                  else (False, c # cs));
          ds = takeWhile is_digit u
      in if ds = [] then NaN
         else if neg then Num (- int (digits_value ds))
         else Num (int (digits_value ds)))"

text \<open>
  \<^verbatim>\<open>new URLSearchParams(record).toString()\<close>: the form-urlencoded serialisation, which
  keeps ASCII letters, digits and \<^verbatim>\<open>*-._\<close>, writes a space as \<^verbatim>\<open>+\<close> and
  percent-encodes every other byte.
\<close>

definition hex_digit :: "nat \<Rightarrow> char" where
  "hex_digit d = (if d < 10 then digit_char d else char_of (of_char CHR ''A'' + (d - 10) :: nat))"

definition form_keeps :: "char \<Rightarrow> bool" where
  "form_keeps c =
     (is_lower c \<or> is_upper c \<or> is_digit c
      \<or> c \<in> set ''*-._'')"

definition form_encode_char :: "char \<Rightarrow> string" where
  "form_encode_char c =
     (if form_keeps c then [c]
      else if c = CHR '' '' then ''+''
      else [CHR ''%'', hex_digit (of_char c div 16), hex_digit (of_char c mod 16)])"

definition form_encode :: "string \<Rightarrow> string" where
  "form_encode s = concat (map form_encode_char s)"

fun join :: "string \<Rightarrow> string list \<Rightarrow> string" where
  "join sep [] = []"
| "join sep [x] = x"
| "join sep (x # y # ys) = x @ sep @ join sep (y # ys)"

definition URLSearchParams_toString :: "(string \<times> string) list \<Rightarrow> string" where
  "URLSearchParams_toString ps =
     join ''&'' (map (\<lambda>(k, v). form_encode k @ ''='' @ form_encode v) ps)"

section \<open>The client\<close>

record MockServerClientConfig =
  cfg_host :: string
  cfg_port :: int
  cfg_timeout :: "int option"

record MockServerClient =
  baseUrl :: string
  timeout :: int

text \<open>
  The constructor: \<^verbatim>\<open>`http://${config.host}:${config.port}`\<close> and
  \<^verbatim>\<open>config.timeout ?? 5000\<close>.
\<close>

definition new_MockServerClient :: "MockServerClientConfig \<Rightarrow> MockServerClient" where
  "new_MockServerClient config =
     \<lparr> baseUrl = ''http://'' @ cfg_host config @ '':'' @ number_to_string (cfg_port config),
       timeout = (case cfg_timeout config of None \<Rightarrow> 5000 | Some t \<Rightarrow> t) \<rparr>"

subsection \<open>request\<close>

text \<open>The call that \<^verbatim>\<open>request\<close> hands to \<^verbatim>\<open>fetch\<close>.\<close>

definition request_call ::
  "MockServerClient \<Rightarrow> string \<Rightarrow> string \<Rightarrow> payload \<Rightarrow> (string \<times> string) list option \<Rightarrow> fetch_call"
where
  "request_call c path meth b queryParams =
     \<lparr> url = (case queryParams of
                None \<Rightarrow> baseUrl c @ path
              | Some ps \<Rightarrow> baseUrl c @ path @ ''?'' @ URLSearchParams_toString ps),
       http_method = meth,
       headers = [(''Content-Type'', ''application/json'')],
       body = b \<rparr>"

text \<open>\<^verbatim>\<open>await response.text().catch(() => 'Unknown error')\<close>.\<close>

definition errorText :: "Response \<Rightarrow> string" where
  "errorText r = (case body_text r of Inl _ \<Rightarrow> ''Unknown error'' | Inr t \<Rightarrow> t)"

text \<open>The body of the \<^verbatim>\<open>try\<close> block: what it returns or throws.\<close>

definition request_try :: "env \<Rightarrow> fetch_call \<Rightarrow> thrown + json" where
  "request_try e call =
     (case fetch e call of
        Inl err \<Rightarrow> Inl err
      | Inr response \<Rightarrow>
          if \<not> ok response then
            if status response = 406 then
              Inl (Tool \<lparr> code = VERIFICATION_FAILED,
                          message = ''Verification failed: '' @ errorText response,
                          details = Some [(''statusCode'', JNum (int (status response)))] \<rparr>)
            else
              Inl (Tool \<lparr> code = MOCKSERVER_ERROR,
                          message = ''MockServer error: '' @ errorText response,
                          details = Some [(''statusCode'', JNum (int (status response)))] \<rparr>)
          else
            (case body_text response of
               Inl err \<Rightarrow> Inl err
             | Inr t \<Rightarrow>
                 if t = [] then Inr (JObj [])
                 else (case JSON_parse e t of
                         Some v \<Rightarrow> Inr v
                       | None \<Rightarrow> Inr (JStr t))))"

text \<open>The \<^verbatim>\<open>catch\<close> block: the failure it throws for what it caught.\<close>

definition request_catch :: "MockServerClient \<Rightarrow> thrown \<Rightarrow> ToolError" where
  "request_catch c err =
     (case err of
        Tool te \<Rightarrow> te
      | PlainError name msg \<Rightarrow>
          if name = ''AbortError'' then
            \<lparr> code = CONNECTION_TIMEOUT,
              message = ''Connection to MockServer timed out after ''
                        @ number_to_string (timeout c) @ ''ms'',
              details = Some [(''host'', JStr (baseUrl c))] \<rparr>
          else if string_includes msg ''ECONNREFUSED''
                  \<or> string_includes msg ''fetch failed''
                  \<or> string_includes msg ''network'' then
            \<lparr> code = CONNECTION_FAILED,
              message = ''Cannot connect to MockServer at '' @ baseUrl c,
              details = Some [(''originalError'', JStr msg)] \<rparr>
          else
            \<lparr> code = UNKNOWN_ERROR, message = ''Unexpected error: '' @ msg, details = None \<rparr>
      | NonError s \<Rightarrow>
          \<lparr> code = UNKNOWN_ERROR, message = ''Unexpected error: '' @ s, details = None \<rparr>)"

text \<open>
  \<^verbatim>\<open>request\<close>: the value it resolves to or the failure it rejects with, and the calls
  it made to \<^verbatim>\<open>fetch\<close>.
\<close>

definition request ::
  "env \<Rightarrow> MockServerClient \<Rightarrow> string \<Rightarrow> string \<Rightarrow> payload \<Rightarrow> (string \<times> string) list option
     \<Rightarrow> (ToolError + json) \<times> fetch_call list"
where
  "request e c path meth b queryParams =
     (let call = request_call c path meth b queryParams
      in (case request_try e call of
            Inl err \<Rightarrow> Inl (request_catch c err)
          | Inr v \<Rightarrow> Inr v,
          [call]))"

subsection \<open>The operations\<close>

definition createExpectation ::
  "env \<Rightarrow> MockServerClient \<Rightarrow> Expectation \<Rightarrow> (ToolError + unit) \<times> fetch_call list"
where
  "createExpectation e c expectation =
     (case request e c ''/mockserver/expectation'' ''PUT'' (ExpectationBody expectation) None of
        (Inl err, calls) \<Rightarrow> (Inl err, calls)
      | (Inr _, calls) \<Rightarrow> (Inr (), calls))"

definition verify_body :: "RequestMatcher \<Rightarrow> Times option \<Rightarrow> payload" where
  "verify_body req tms =
     ObjectBody ((''httpRequest'', MatcherField req)
                 # (case tms of None \<Rightarrow> [] | Some t \<Rightarrow> [(''times'', TimesField t)]))"

text \<open>\<^verbatim>\<open>times?.exactly ?? times?.atLeast ?? 1\<close>.\<close>

definition verify_count :: "Times option \<Rightarrow> int" where
  "verify_count tms =
     (case tms of
        None \<Rightarrow> 1
      | Some t \<Rightarrow> (case exactly t of
                    Some n \<Rightarrow> n
                  | None \<Rightarrow> (case atLeast t of Some n \<Rightarrow> n | None \<Rightarrow> 1)))"

definition verify ::
  "env \<Rightarrow> MockServerClient \<Rightarrow> RequestMatcher \<Rightarrow> Times option
     \<Rightarrow> (ToolError + VerificationResult) \<times> fetch_call list"
where
  "verify e c req tms =
     (case request e c ''/mockserver/verify'' ''PUT'' (verify_body req tms) None of
        (Inr _, calls) \<Rightarrow>
          (Inr \<lparr> success = True, matchedCount = verify_count tms, vr_message = None \<rparr>, calls)
      | (Inl err, calls) \<Rightarrow>
          if code err = VERIFICATION_FAILED then
            (Inr \<lparr> success = False, matchedCount = 0, vr_message = Some (message err) \<rparr>, calls)
          else (Inl err, calls))"

text \<open>\<^verbatim>\<open>request ? { httpRequest: request } : {}\<close>; an object is always truthy.\<close>

definition matcher_body :: "RequestMatcher option \<Rightarrow> payload" where
  "matcher_body req =
     (case req of
        Some m \<Rightarrow> ObjectBody [(''httpRequest'', MatcherField m)]
      | None \<Rightarrow> ObjectBody [])"

definition clear ::
  "env \<Rightarrow> MockServerClient \<Rightarrow> RequestMatcher option \<Rightarrow> (ToolError + unit) \<times> fetch_call list"
where
  "clear e c req =
     (case request e c ''/mockserver/clear'' ''PUT'' (matcher_body req) None of
        (Inl err, calls) \<Rightarrow> (Inl err, calls)
      | (Inr _, calls) \<Rightarrow> (Inr (), calls))"

definition reset :: "env \<Rightarrow> MockServerClient \<Rightarrow> (ToolError + unit) \<times> fetch_call list" where
  "reset e c =
     (case request e c ''/mockserver/reset'' ''PUT'' (ObjectBody []) None of
        (Inl err, calls) \<Rightarrow> (Inl err, calls)
      | (Inr _, calls) \<Rightarrow> (Inr (), calls))"

text \<open>
  The cast of the array to \<^verbatim>\<open>RecordedRequest[]\<close> is unchecked: the elements are the
  parsed values.
\<close>

definition retrieveRecordedRequests ::
  "env \<Rightarrow> MockServerClient \<Rightarrow> RequestMatcher option \<Rightarrow> (ToolError + json list) \<times> fetch_call list"
where
  "retrieveRecordedRequests e c req =
     (case request e c ''/mockserver/retrieve'' ''PUT'' (matcher_body req)
             (Some [(''type'', ''REQUESTS'')]) of
        (Inl err, calls) \<Rightarrow> (Inl err, calls)
      | (Inr response, calls) \<Rightarrow>
          (case response of
             JArr xs \<Rightarrow> (Inr xs, calls)
           | _ \<Rightarrow> (Inr [], calls)))"

text \<open>
  \<^verbatim>\<open>response?.version\<close>: \<^verbatim>\<open>undefined\<close> on \<^verbatim>\<open>null\<close>, on a value that is no object
  and on an object without the property.
\<close>

definition version_of :: "json \<Rightarrow> json option" where
  "version_of response = (case response of JObj ps \<Rightarrow> map_of ps ''version'' | _ \<Rightarrow> None)"

text \<open>
  \<^verbatim>\<open>const [host, portStr] = this.baseUrl.replace('http://', '').split(':')\<close> and
  \<^verbatim>\<open>parseInt(portStr, 10)\<close>, where \<^verbatim>\<open>parseInt(undefined, 10)\<close> is \<open>NaN\<close>.
\<close>

definition status_parts :: "MockServerClient \<Rightarrow> string list" where
  "status_parts c = split (replace_first (baseUrl c) ''http://'' []) CHR '':''"

definition status_host :: "MockServerClient \<Rightarrow> string option" where
  "status_host c = element (status_parts c) 0"

definition status_port :: "MockServerClient \<Rightarrow> js_number" where
  "status_port c =
     (case element (status_parts c) 1 of None \<Rightarrow> NaN | Some portStr \<Rightarrow> parseInt portStr)"

definition getStatus ::
  "env \<Rightarrow> MockServerClient \<Rightarrow> (ToolError + ServerStatus) \<times> fetch_call list"
where
  "getStatus e c =
     (case request e c ''/mockserver/status'' ''PUT'' (ObjectBody []) None of
        (Inr response, calls) \<Rightarrow>
          (Inr \<lparr> host = status_host c, port = status_port c, reachable = True,
                 version = version_of response \<rparr>, calls)
      | (Inl err, calls) \<Rightarrow>
          if code err = CONNECTION_FAILED \<or> code err = CONNECTION_TIMEOUT then
            (Inr \<lparr> host = status_host c, port = status_port c, reachable = False,
                   version = None \<rparr>, calls)
          else (Inl err, calls))"

section \<open>Sample inputs\<close>

text \<open>
  The set-up of \<^verbatim>\<open>tests/unit/mockserver-client.test.ts\<close>: a client for
  \<^verbatim>\<open>localhost:1080\<close>, a \<^verbatim>\<open>fetch\<close> that resolves with a given response or rejects with
  a given value, and the parse results of the JSON bodies used there.
\<close>

definition client_localhost :: MockServerClient where
  "client_localhost =
     new_MockServerClient \<lparr> cfg_host = ''localhost'', cfg_port = 1080, cfg_timeout = None \<rparr>"

text \<open>A client for the IPv6 loopback address, written as a URL needs it.\<close>

definition client_ipv6 :: MockServerClient where
  "client_ipv6 =
     new_MockServerClient \<lparr> cfg_host = ''[::1]'', cfg_port = 1080, cfg_timeout = None \<rparr>"

definition parse_table :: "string \<Rightarrow> json option" where
  \<open>parse_table =
     map_of
       [(''[]'', JArr []),
        (''{"version":"5.15.0"}'', JObj [(''version'', JStr ''5.15.0'')]),
        (''{"status":"ok"}'', JObj [(''status'', JStr ''ok'')]),
        (''[{"method":"GET","path":"/test1"},{"method":"POST","path":"/test2"}]'',
           JArr [JObj [(''method'', JStr ''GET''), (''path'', JStr ''/test1'')],
                 JObj [(''method'', JStr ''POST''), (''path'', JStr ''/test2'')]])]\<close>

definition resolves :: "nat \<Rightarrow> string \<Rightarrow> env" where
  "resolves st t =
     \<lparr> fetch = (\<lambda>call. Inr \<lparr> status = st, body_text = Inr t \<rparr>), JSON_parse = parse_table \<rparr>"

text \<open>A response whose body cannot be read: \<^verbatim>\<open>response.text()\<close> rejects.\<close>

definition resolves_unreadable :: "nat \<Rightarrow> thrown \<Rightarrow> env" where
  "resolves_unreadable st err =
     \<lparr> fetch = (\<lambda>call. Inr \<lparr> status = st, body_text = Inl err \<rparr>), JSON_parse = parse_table \<rparr>"

definition rejects :: "thrown \<Rightarrow> env" where
  "rejects err = \<lparr> fetch = (\<lambda>call. Inl err), JSON_parse = parse_table \<rparr>"

definition matcher_any :: RequestMatcher where
  "matcher_any =
     \<lparr> rm_method = None, rm_path = None, pathParameters = None,
       queryStringParameters = None, rm_headers = None, rm_body = None \<rparr>"

definition expectation_get_test :: Expectation where
  "expectation_get_test =
     \<lparr> exp_id = None,
       httpRequest = matcher_any \<lparr> rm_method := Some ''GET'', rm_path := Some ''/test'' \<rparr>,
       httpResponse = None, exp_times = None, exp_timeToLive = None \<rparr>"

section \<open>The request primitive\<close>

lemma request_calls: "snd (request e c path meth b q) = [request_call c path meth b q]"
  by (simp add: request_def Let_def)

lemma request_result:
  "fst (request e c path meth b q) =
     (case request_try e (request_call c path meth b q) of
        Inl err \<Rightarrow> Inl (request_catch c err)
      | Inr v \<Rightarrow> Inr v)"
  by (simp add: request_def Let_def)

lemma request_try_406:
  "fetch e call = Inr r \<Longrightarrow> status r = 406 \<Longrightarrow>
   request_try e call =
     Inl (Tool \<lparr> code = VERIFICATION_FAILED,
                 message = ''Verification failed: '' @ errorText r,
                 details = Some [(''statusCode'', JNum 406)] \<rparr>)"
  by (simp add: request_try_def ok_def)

lemma request_try_not_ok:
  "fetch e call = Inr r \<Longrightarrow> \<not> ok r \<Longrightarrow> status r \<noteq> 406 \<Longrightarrow>
   request_try e call =
     Inl (Tool \<lparr> code = MOCKSERVER_ERROR,
                 message = ''MockServer error: '' @ errorText r,
                 details = Some [(''statusCode'', JNum (int (status r)))] \<rparr>)"
  by (simp add: request_try_def)

lemma request_try_ok:
  "fetch e call = Inr r \<Longrightarrow> ok r \<Longrightarrow> body_text r = Inr t \<Longrightarrow>
   request_try e call =
     Inr (if t = [] then JObj []
          else (case JSON_parse e t of Some v \<Rightarrow> v | None \<Rightarrow> JStr t))"
  by (simp add: request_try_def split: option.splits)

lemma request_ok:
  "fetch e (request_call c path meth b q) = Inr r \<Longrightarrow> ok r \<Longrightarrow> body_text r = Inr t \<Longrightarrow>
   fst (request e c path meth b q) =
     Inr (if t = [] then JObj []
          else (case JSON_parse e t of Some v \<Rightarrow> v | None \<Rightarrow> JStr t))"
  by (simp add: request_result request_try_ok)

lemma request_406:
  "fetch e (request_call c path meth b q) = Inr r \<Longrightarrow> status r = 406 \<Longrightarrow>
   fst (request e c path meth b q) =
     Inl \<lparr> code = VERIFICATION_FAILED,
           message = ''Verification failed: '' @ errorText r,
           details = Some [(''statusCode'', JNum 406)] \<rparr>"
  by (simp add: request_result request_try_406 request_catch_def)

lemma request_not_ok:
  "fetch e (request_call c path meth b q) = Inr r \<Longrightarrow> \<not> ok r \<Longrightarrow> status r \<noteq> 406 \<Longrightarrow>
   fst (request e c path meth b q) =
     Inl \<lparr> code = MOCKSERVER_ERROR,
           message = ''MockServer error: '' @ errorText r,
           details = Some [(''statusCode'', JNum (int (status r)))] \<rparr>"
  by (simp add: request_result request_try_not_ok request_catch_def)

lemma request_rejected:
  "fetch e (request_call c path meth b q) = Inl err \<Longrightarrow>
   fst (request e c path meth b q) = Inl (request_catch c err)"
  by (simp add: request_result request_try_def)

text \<open>What each operation makes of the outcome of its one call to \<^verbatim>\<open>request\<close>.\<close>

lemma createExpectation_fst:
  "fst (createExpectation e c x) =
     (case fst (request e c ''/mockserver/expectation'' ''PUT'' (ExpectationBody x) None) of
        Inl err \<Rightarrow> Inl err | Inr _ \<Rightarrow> Inr ())"
  by (simp add: createExpectation_def split: prod.splits sum.splits)

lemma clear_fst:
  "fst (clear e c req) =
     (case fst (request e c ''/mockserver/clear'' ''PUT'' (matcher_body req) None) of
        Inl err \<Rightarrow> Inl err | Inr _ \<Rightarrow> Inr ())"
  by (simp add: clear_def split: prod.splits sum.splits)

lemma reset_fst:
  "fst (reset e c) =
     (case fst (request e c ''/mockserver/reset'' ''PUT'' (ObjectBody []) None) of
        Inl err \<Rightarrow> Inl err | Inr _ \<Rightarrow> Inr ())"
  by (simp add: reset_def split: prod.splits sum.splits)

lemma retrieveRecordedRequests_fst:
  "fst (retrieveRecordedRequests e c req) =
     (case fst (request e c ''/mockserver/retrieve'' ''PUT'' (matcher_body req)
                  (Some [(''type'', ''REQUESTS'')])) of
        Inl err \<Rightarrow> Inl err
      | Inr response \<Rightarrow> (case response of JArr xs \<Rightarrow> Inr xs | _ \<Rightarrow> Inr []))"
  by (simp add: retrieveRecordedRequests_def split: prod.splits sum.splits json.splits)

lemma retrieveRecordedRequests_snd:
  "snd (retrieveRecordedRequests e c req) =
     snd (request e c ''/mockserver/retrieve'' ''PUT'' (matcher_body req)
            (Some [(''type'', ''REQUESTS'')]))"
  by (simp add: retrieveRecordedRequests_def split: prod.splits sum.splits json.splits)

lemma clear_snd:
  "snd (clear e c req) = snd (request e c ''/mockserver/clear'' ''PUT'' (matcher_body req) None)"
  by (simp add: clear_def split: prod.splits sum.splits)

lemma verify_fst:
  "fst (verify e c req tms) =
     (case fst (request e c ''/mockserver/verify'' ''PUT'' (verify_body req tms) None) of
        Inr _ \<Rightarrow> Inr \<lparr> success = True, matchedCount = verify_count tms, vr_message = None \<rparr>
      | Inl err \<Rightarrow>
          if code err = VERIFICATION_FAILED
          then Inr \<lparr> success = False, matchedCount = 0, vr_message = Some (message err) \<rparr>
          else Inl err)"
  by (simp add: verify_def split: prod.splits sum.splits)

lemma getStatus_fst:
  "fst (getStatus e c) =
     (case fst (request e c ''/mockserver/status'' ''PUT'' (ObjectBody []) None) of
        Inr response \<Rightarrow>
          Inr \<lparr> host = status_host c, port = status_port c, reachable = True,
                version = version_of response \<rparr>
      | Inl err \<Rightarrow>
          if code err = CONNECTION_FAILED \<or> code err = CONNECTION_TIMEOUT
          then Inr \<lparr> host = status_host c, port = status_port c, reachable = False,
                     version = None \<rparr>
          else Inl err)"
  by (simp add: getStatus_def split: prod.splits sum.splits)

lemma url_type_hint:
  "URLSearchParams_toString [(''type'', ''REQUESTS'')] = ''type=REQUESTS''"
  by code_simp

lemma baseUrl_client_localhost: "baseUrl client_localhost = ''http://localhost:1080''"
  by code_simp

section \<open>verify\<close>

text \<open>
  Claim C1. When the transport answers the call of \<^verbatim>\<open>verify\<close> with status 406,
  \<^verbatim>\<open>verify\<close> does not raise, for every matcher and every count spec: it returns
  \<open>{success: false, matchedCount: 0, message}\<close>, where the message is
  \<^verbatim>\<open>Verification failed: \<close> followed by the text of the response body (the placeholder
  \<^verbatim>\<open>Unknown error\<close> when the body cannot be read). Every failure of any other kind
  that the call raises reaches the caller of \<^verbatim>\<open>verify\<close> unchanged.
\<close>

theorem verify_mismatch_is_result:
  "(fetch e (request_call c ''/mockserver/verify'' ''PUT'' (verify_body req tms) None) = Inr r
      \<and> status r = 406 \<longrightarrow>
    fst (verify e c req tms) =
      Inr \<lparr> success = False, matchedCount = 0,
            vr_message = Some (''Verification failed: ''
                               @ (case body_text r of Inr t \<Rightarrow> t | Inl _ \<Rightarrow> ''Unknown error'')) \<rparr>)
   \<and> (fst (request e c ''/mockserver/verify'' ''PUT'' (verify_body req tms) None) = Inl err
      \<and> code err \<noteq> VERIFICATION_FAILED \<longrightarrow>
    fst (verify e c req tms) = Inl err)"
proof (intro conjI impI)
  assume "fetch e (request_call c ''/mockserver/verify'' ''PUT'' (verify_body req tms) None) = Inr r
          \<and> status r = 406"
  then have "fst (request e c ''/mockserver/verify'' ''PUT'' (verify_body req tms) None) =
               Inl \<lparr> code = VERIFICATION_FAILED,
                     message = ''Verification failed: '' @ errorText r,
                     details = Some [(''statusCode'', JNum 406)] \<rparr>"
    by (simp add: request_406)
  then show "fst (verify e c req tms) =
      Inr \<lparr> success = False, matchedCount = 0,
            vr_message = Some (''Verification failed: ''
                               @ (case body_text r of Inr t \<Rightarrow> t | Inl _ \<Rightarrow> ''Unknown error'')) \<rparr>"
    by (simp add: verify_fst errorText_def split: sum.splits)
next
  assume "fst (request e c ''/mockserver/verify'' ''PUT'' (verify_body req tms) None) = Inl err
          \<and> code err \<noteq> VERIFICATION_FAILED"
  then show "fst (verify e c req tms) = Inl err"
    by (simp add: verify_fst)
qed

theorem verify_mismatch_is_result_witness:
  "fst (verify (resolves 406 ''Request not matched'') client_localhost matcher_any None) =
     Inr \<lparr> success = False, matchedCount = 0,
           vr_message = Some ''Verification failed: Request not matched'' \<rparr>
   \<and> fst (verify (rejects (PlainError ''TypeError'' ''fetch failed'')) client_localhost
             matcher_any None) =
     Inl \<lparr> code = CONNECTION_FAILED,
           message = ''Cannot connect to MockServer at http://localhost:1080'',
           details = Some [(''originalError'', JStr ''fetch failed'')] \<rparr>"
proof -
  let ?r = "\<lparr> status = 406, body_text = Inr ''Request not matched'' \<rparr>"
  have f: "fetch (resolves 406 ''Request not matched'')
             (request_call client_localhost ''/mockserver/verify'' ''PUT''
                (verify_body matcher_any None) None) = Inr ?r \<and> status ?r = 406"
    by (simp add: resolves_def)
  let ?err = "\<lparr> code = CONNECTION_FAILED,
           message = ''Cannot connect to MockServer at http://localhost:1080'',
           details = Some [(''originalError'', JStr ''fetch failed'')] \<rparr>"
  have g: "fst (request (rejects (PlainError ''TypeError'' ''fetch failed'')) client_localhost
                  ''/mockserver/verify'' ''PUT'' (verify_body matcher_any None) None) = Inl ?err
           \<and> code ?err \<noteq> VERIFICATION_FAILED"
    by (simp add: request_rejected rejects_def request_catch_def baseUrl_client_localhost)
  from verify_mismatch_is_result [of "resolves 406 ''Request not matched''" client_localhost
         matcher_any None ?r]
       verify_mismatch_is_result [of "rejects (PlainError ''TypeError'' ''fetch failed'')"
         client_localhost matcher_any None _ ?err]
       f g
  show ?thesis by simp
qed

text \<open>
  Claim C4. When the call of \<^verbatim>\<open>verify\<close> succeeds, \<^verbatim>\<open>verify\<close> returns
  \<open>{success: true, matchedCount: n}\<close>, for every matcher and every optional count spec,
  where \<open>n\<close> is the spec's \<^verbatim>\<open>exactly\<close> if present, else its \<^verbatim>\<open>atLeast\<close> if present,
  else 1. The count comes from the count spec of the request and never from the response:
  the same result is returned for every value the call resolves to, and in particular for
  every 2xx response whose body can be read, whatever the body.
\<close>

theorem verify_success_count:
  "(fst (request e c ''/mockserver/verify'' ''PUT'' (verify_body req tms) None) = Inr v
      \<longrightarrow>
    fst (verify e c req tms) =
      Inr \<lparr> success = True,
            matchedCount =
              (case tms of
                 None \<Rightarrow> 1
               | Some t \<Rightarrow> (case exactly t of
                             Some n \<Rightarrow> n
                           | None \<Rightarrow> (case atLeast t of Some n \<Rightarrow> n | None \<Rightarrow> 1))),
            vr_message = None \<rparr>)
   \<and> (fetch e (request_call c ''/mockserver/verify'' ''PUT'' (verify_body req tms) None) = Inr r
      \<and> ok r \<and> body_text r = Inr txt \<longrightarrow>
    fst (verify e c req tms) =
      Inr \<lparr> success = True,
            matchedCount =
              (case tms of
                 None \<Rightarrow> 1
               | Some t \<Rightarrow> (case exactly t of
                             Some n \<Rightarrow> n
                           | None \<Rightarrow> (case atLeast t of Some n \<Rightarrow> n | None \<Rightarrow> 1))),
            vr_message = None \<rparr>)"
proof -
  have resolved:
    "fst (verify e c req tms) =
       Inr \<lparr> success = True, matchedCount = verify_count tms, vr_message = None \<rparr>"
    if "fst (request e c ''/mockserver/verify'' ''PUT'' (verify_body req tms) None) = Inr w"
    for w
    using that by (simp add: verify_fst)
  have answered:
    "fst (request e c ''/mockserver/verify'' ''PUT'' (verify_body req tms) None) =
       Inr (if txt = [] then JObj []
            else (case JSON_parse e txt of Some v \<Rightarrow> v | None \<Rightarrow> JStr txt))"
    if "fetch e (request_call c ''/mockserver/verify'' ''PUT'' (verify_body req tms) None) = Inr r"
      and "ok r" and "body_text r = Inr txt"
    using that by (rule request_ok)
  show ?thesis
    using resolved answered by (auto simp: verify_count_def)
qed

theorem verify_success_count_witness:
  "fst (verify (resolves 202 []) client_localhost matcher_any None) =
     Inr \<lparr> success = True, matchedCount = 1, vr_message = None \<rparr>
   \<and> fst (verify (resolves 202 []) client_localhost matcher_any
             (Some \<lparr> atLeast = None, atMost = None, exactly = Some 3 \<rparr>)) =
     Inr \<lparr> success = True, matchedCount = 3, vr_message = None \<rparr>
   \<and> fst (verify (resolves 202 ''{\"status\":\"ok\"}'') client_localhost matcher_any
             (Some \<lparr> atLeast = Some 2, atMost = Some 7, exactly = None \<rparr>)) =
     Inr \<lparr> success = True, matchedCount = 2, vr_message = None \<rparr>"
proof -
  let ?r = "\<lparr> status = 202, body_text = Inr [] \<rparr>"
  have a: "fetch (resolves 202 []) call = Inr ?r \<and> ok ?r \<and> body_text ?r = Inr []" for call
    by (simp add: resolves_def ok_def)
  have b: "fst (request (resolves 202 ''{\"status\":\"ok\"}'') client_localhost ''/mockserver/verify''
                 ''PUT'' (verify_body matcher_any tms) None) =
             Inr (JObj [(''status'', JStr ''ok'')])" for tms
    by (simp add: request_result request_try_def resolves_def ok_def parse_table_def)
  from conjunct2 [OF verify_success_count [of "resolves 202 []" client_localhost matcher_any None
                       _ ?r "[]"]]
       a
  have w1: "fst (verify (resolves 202 []) client_localhost matcher_any None) =
              Inr \<lparr> success = True, matchedCount = 1, vr_message = None \<rparr>"
    by simp
  from conjunct2 [OF verify_success_count [of "resolves 202 []" client_localhost matcher_any
                       "Some \<lparr> atLeast = None, atMost = None, exactly = Some 3 \<rparr>" _ ?r "[]"]]
       a
  have w2: "fst (verify (resolves 202 []) client_localhost matcher_any
                   (Some \<lparr> atLeast = None, atMost = None, exactly = Some 3 \<rparr>)) =
              Inr \<lparr> success = True, matchedCount = 3, vr_message = None \<rparr>"
    by simp
  from conjunct1 [OF verify_success_count [of "resolves 202 ''{\"status\":\"ok\"}''"
                       client_localhost matcher_any
                       "Some \<lparr> atLeast = Some 2, atMost = Some 7, exactly = None \<rparr>"
                       "JObj [(''status'', JStr ''ok'')]"]]
       b
  have w3: "fst (verify (resolves 202 ''{\"status\":\"ok\"}'') client_localhost matcher_any
                   (Some \<lparr> atLeast = Some 2, atMost = Some 7, exactly = None \<rparr>)) =
              Inr \<lparr> success = True, matchedCount = 2, vr_message = None \<rparr>"
    by simp
  from w1 w2 w3 show ?thesis by simp
qed

section \<open>The result of a successful request\<close>

text \<open>
  Claim C6. On a response with a success status (whose body can be read), the result of
  \<^verbatim>\<open>request\<close> is determined by the body text alone: an empty body gives the empty
  object \<^verbatim>\<open>{}\<close> (not null and not absent), a non-empty body that parses as JSON gives
  the parsed value, and a non-empty body that does not parse gives the raw text itself,
  without raising.
\<close>

theorem request_result_from_body:
  assumes "fetch e (request_call c path meth b q) = Inr r"
    and "ok r"
    and "body_text r = Inr t"
  shows "(t = [] \<longrightarrow> fst (request e c path meth b q) = Inr (JObj []))
       \<and> (t \<noteq> [] \<and> JSON_parse e t = Some v \<longrightarrow> fst (request e c path meth b q) = Inr v)
       \<and> (t \<noteq> [] \<and> JSON_parse e t = None \<longrightarrow> fst (request e c path meth b q) = Inr (JStr t))"
  using request_ok [OF assms] by simp

theorem request_result_from_body_witness:
  "fst (request (resolves 201 []) client_localhost ''/mockserver/expectation'' ''PUT''
          (ExpectationBody expectation_get_test) None) = Inr (JObj [])
   \<and> fst (request (resolves 200 ''{\"version\":\"5.15.0\"}'') client_localhost
            ''/mockserver/status'' ''PUT'' (ObjectBody []) None) =
       Inr (JObj [(''version'', JStr ''5.15.0'')])
   \<and> fst (request (resolves 200 ''OK'') client_localhost ''/mockserver/reset'' ''PUT''
            (ObjectBody []) None) = Inr (JStr ''OK'')"
proof -
  have w1: "fst (request (resolves 201 []) client_localhost ''/mockserver/expectation'' ''PUT''
                   (ExpectationBody expectation_get_test) None) = Inr (JObj [])"
    using request_result_from_body [of "resolves 201 []" client_localhost
            "''/mockserver/expectation''" "''PUT''" "ExpectationBody expectation_get_test" None
            "\<lparr> status = 201, body_text = Inr [] \<rparr>" "[]"]
    by (simp add: resolves_def ok_def)
  have w2: "fst (request (resolves 200 ''{\"version\":\"5.15.0\"}'') client_localhost
                   ''/mockserver/status'' ''PUT'' (ObjectBody []) None) =
              Inr (JObj [(''version'', JStr ''5.15.0'')])"
    using request_result_from_body [of "resolves 200 ''{\"version\":\"5.15.0\"}''"
            client_localhost "''/mockserver/status''" "''PUT''" "ObjectBody []" None
            "\<lparr> status = 200, body_text = Inr ''{\"version\":\"5.15.0\"}'' \<rparr>"
            "''{\"version\":\"5.15.0\"}''" "JObj [(''version'', JStr ''5.15.0'')]"]
    by (simp add: resolves_def ok_def parse_table_def)
  have w3: "fst (request (resolves 200 ''OK'') client_localhost ''/mockserver/reset'' ''PUT''
                   (ObjectBody []) None) = Inr (JStr ''OK'')"
    using request_result_from_body [of "resolves 200 ''OK''" client_localhost
            "''/mockserver/reset''" "''PUT''" "ObjectBody []" None
            "\<lparr> status = 200, body_text = Inr ''OK'' \<rparr>" "''OK''"]
    by (simp add: resolves_def ok_def parse_table_def)
  from w1 w2 w3 show ?thesis by simp
qed

section \<open>clear\<close>

text \<open>
  Claim C8. The body that \<^verbatim>\<open>clear\<close> sends is determined by its optional matcher:
  without a matcher it makes one call whose body is the empty object \<^verbatim>\<open>{}\<close>, with no
  \<^verbatim>\<open>httpRequest\<close> property at all, and with a matcher \<open>m\<close> it makes one call whose body
  is exactly \<^verbatim>\<open>{httpRequest: m}\<close>; both are a PUT to \<^verbatim>\<open>/mockserver/clear\<close>.
\<close>

theorem clear_body:
  "snd (clear e c None) =
     [\<lparr> url = baseUrl c @ ''/mockserver/clear'', http_method = ''PUT'',
         headers = [(''Content-Type'', ''application/json'')],
         body = ObjectBody [] \<rparr>]
   \<and> snd (clear e c (Some m)) =
     [\<lparr> url = baseUrl c @ ''/mockserver/clear'', http_method = ''PUT'',
         headers = [(''Content-Type'', ''application/json'')],
         body = ObjectBody [(''httpRequest'', MatcherField m)] \<rparr>]"
  by (simp add: clear_snd request_calls request_call_def matcher_body_def)

text \<open>The example of the claim: \<^verbatim>\<open>clear({path: "/test"})\<close>.\<close>

theorem clear_body_witness:
  "map body (snd (clear (resolves 200 []) client_localhost None)) = [ObjectBody []]
   \<and> map body (snd (clear (resolves 200 []) client_localhost
                       (Some (matcher_any \<lparr> rm_path := Some ''/test'' \<rparr>)))) =
       [ObjectBody
          [(''httpRequest'',
            MatcherField \<lparr> rm_method = None, rm_path = Some ''/test'', pathParameters = None,
                           queryStringParameters = None, rm_headers = None,
                           rm_body = None \<rparr>)]]"
  using clear_body [of "resolves 200 []" client_localhost
          "matcher_any \<lparr> rm_path := Some ''/test'' \<rparr>"]
  by (simp add: matcher_any_def)

section \<open>retrieveRecordedRequests\<close>

text \<open>
  Claim C7. \<^verbatim>\<open>retrieveRecordedRequests\<close> always sends the query hint
  \<^verbatim>\<open>type=REQUESTS\<close> on the URL of its one request, for every optional matcher. What it
  returns is a sequence: given a success response whose body parses to a JSON array, it
  returns that array as it is, so the empty array \<^verbatim>\<open>[]\<close> gives the empty sequence.
\<close>

theorem retrieve_type_hint_and_array:
  "map url (snd (retrieveRecordedRequests e c req)) =
     [baseUrl c @ ''/mockserver/retrieve?type=REQUESTS'']
   \<and> (fetch e \<lparr> url = baseUrl c @ ''/mockserver/retrieve?type=REQUESTS'',
                 http_method = ''PUT'',
                 headers = [(''Content-Type'', ''application/json'')],
                 body = (case req of
                           Some m \<Rightarrow> ObjectBody [(''httpRequest'', MatcherField m)]
                         | None \<Rightarrow> ObjectBody []) \<rparr> = Inr r
        \<and> ok r \<and> body_text r = Inr t \<and> t \<noteq> [] \<and> JSON_parse e t = Some (JArr xs)
      \<longrightarrow> fst (retrieveRecordedRequests e c req) = Inr xs)"
proof (intro conjI impI)
  show "map url (snd (retrieveRecordedRequests e c req)) =
          [baseUrl c @ ''/mockserver/retrieve?type=REQUESTS'']"
    by (simp add: retrieveRecordedRequests_snd request_calls request_call_def url_type_hint)
next
  let ?call = "request_call c ''/mockserver/retrieve'' ''PUT'' (matcher_body req)
                 (Some [(''type'', ''REQUESTS'')])"
  assume h: "fetch e \<lparr> url = baseUrl c @ ''/mockserver/retrieve?type=REQUESTS'',
                 http_method = ''PUT'',
                 headers = [(''Content-Type'', ''application/json'')],
                 body = (case req of
                           Some m \<Rightarrow> ObjectBody [(''httpRequest'', MatcherField m)]
                         | None \<Rightarrow> ObjectBody []) \<rparr> = Inr r
        \<and> ok r \<and> body_text r = Inr t \<and> t \<noteq> [] \<and> JSON_parse e t = Some (JArr xs)"
  have "?call = \<lparr> url = baseUrl c @ ''/mockserver/retrieve?type=REQUESTS'',
                 http_method = ''PUT'',
                 headers = [(''Content-Type'', ''application/json'')],
                 body = (case req of
                           Some m \<Rightarrow> ObjectBody [(''httpRequest'', MatcherField m)]
                         | None \<Rightarrow> ObjectBody []) \<rparr>"
    by (simp add: request_call_def url_type_hint matcher_body_def)
  with h have "fetch e ?call = Inr r" and "ok r" and "body_text r = Inr t"
    by simp_all
  then have "fst (request e c ''/mockserver/retrieve'' ''PUT'' (matcher_body req)
                    (Some [(''type'', ''REQUESTS'')])) =
               Inr (if t = [] then JObj []
                    else (case JSON_parse e t of Some v \<Rightarrow> v | None \<Rightarrow> JStr t))"
    by (rule request_ok)
  with h show "fst (retrieveRecordedRequests e c req) = Inr xs"
    by (simp add: retrieveRecordedRequests_fst)
qed

theorem retrieve_type_hint_and_array_witness:
  "map url (snd (retrieveRecordedRequests (resolves 200 ''[]'') client_localhost None)) =
     [''http://localhost:1080/mockserver/retrieve?type=REQUESTS'']
   \<and> fst (retrieveRecordedRequests (resolves 200 ''[]'') client_localhost None) = Inr []
   \<and> fst (retrieveRecordedRequests
            (resolves 200
               ''[{\"method\":\"GET\",\"path\":\"/test1\"},{\"method\":\"POST\",\"path\":\"/test2\"}]'')
            client_localhost None) =
       Inr [JObj [(''method'', JStr ''GET''), (''path'', JStr ''/test1'')],
            JObj [(''method'', JStr ''POST''), (''path'', JStr ''/test2'')]]"
proof -
  let ?t = "''[{\"method\":\"GET\",\"path\":\"/test1\"},{\"method\":\"POST\",\"path\":\"/test2\"}]''"
  have w1: "map url (snd (retrieveRecordedRequests (resolves 200 ''[]'') client_localhost None)) =
              [''http://localhost:1080/mockserver/retrieve?type=REQUESTS'']"
    using conjunct1 [OF retrieve_type_hint_and_array [of "resolves 200 ''[]''" client_localhost
                          None]]
    by (simp add: baseUrl_client_localhost)
  have w2: "fst (retrieveRecordedRequests (resolves 200 ''[]'') client_localhost None) = Inr []"
    using conjunct2 [OF retrieve_type_hint_and_array [of "resolves 200 ''[]''" client_localhost
                          None "\<lparr> status = 200, body_text = Inr ''[]'' \<rparr>" "''[]''" "[]"]]
    by (simp add: resolves_def ok_def parse_table_def)
  have w3: "fst (retrieveRecordedRequests (resolves 200 ?t) client_localhost None) =
              Inr [JObj [(''method'', JStr ''GET''), (''path'', JStr ''/test1'')],
                   JObj [(''method'', JStr ''POST''), (''path'', JStr ''/test2'')]]"
    using conjunct2 [OF retrieve_type_hint_and_array [of "resolves 200 ?t" client_localhost
                          None "\<lparr> status = 200, body_text = Inr ?t \<rparr>" ?t
                          "[JObj [(''method'', JStr ''GET''), (''path'', JStr ''/test1'')],
                            JObj [(''method'', JStr ''POST''), (''path'', JStr ''/test2'')]]"]]
    by (simp add: resolves_def ok_def parse_table_def)
  from w1 w2 w3 show ?thesis by simp
qed

text \<open>
  Claim C10. \<^verbatim>\<open>retrieveRecordedRequests\<close> returns a sequence on every success response
  whose body can be read, not only on array bodies: whenever the result of \<^verbatim>\<open>request\<close>
  is no JSON array, it returns the empty sequence rather than raising or returning
  something else. That covers a JSON object, the raw text of a body that does not parse,
  and the empty object that an empty body gives.
\<close>

theorem retrieve_total_on_success:
  "(fst (request e c ''/mockserver/retrieve'' ''PUT'' (matcher_body req)
           (Some [(''type'', ''REQUESTS'')])) = Inr v
      \<and> (\<forall>xs. v \<noteq> JArr xs)
    \<longrightarrow> fst (retrieveRecordedRequests e c req) = Inr [])
   \<and> (fetch e (request_call c ''/mockserver/retrieve'' ''PUT'' (matcher_body req)
                 (Some [(''type'', ''REQUESTS'')])) = Inr r
      \<and> ok r \<and> body_text r = Inr t
    \<longrightarrow> (\<exists>xs. fst (retrieveRecordedRequests e c req) = Inr xs)
        \<and> (t = [] \<longrightarrow> fst (retrieveRecordedRequests e c req) = Inr [])
        \<and> (t \<noteq> [] \<and> JSON_parse e t = None
             \<longrightarrow> fst (retrieveRecordedRequests e c req) = Inr [])
        \<and> (t \<noteq> [] \<and> JSON_parse e t = Some (JObj ps)
             \<longrightarrow> fst (retrieveRecordedRequests e c req) = Inr []))"
proof (intro conjI impI)
  assume "fst (request e c ''/mockserver/retrieve'' ''PUT'' (matcher_body req)
                 (Some [(''type'', ''REQUESTS'')])) = Inr v \<and> (\<forall>xs. v \<noteq> JArr xs)"
  then show "fst (retrieveRecordedRequests e c req) = Inr []"
    by (cases v) (simp_all add: retrieveRecordedRequests_fst)
next
  assume h: "fetch e (request_call c ''/mockserver/retrieve'' ''PUT'' (matcher_body req)
                 (Some [(''type'', ''REQUESTS'')])) = Inr r \<and> ok r \<and> body_text r = Inr t"
  then have res: "fst (request e c ''/mockserver/retrieve'' ''PUT'' (matcher_body req)
                    (Some [(''type'', ''REQUESTS'')])) =
               Inr (if t = [] then JObj []
                    else (case JSON_parse e t of Some v \<Rightarrow> v | None \<Rightarrow> JStr t))"
    by (simp add: request_ok)
  show "\<exists>xs. fst (retrieveRecordedRequests e c req) = Inr xs"
    by (simp add: retrieveRecordedRequests_fst res split: json.splits)
  { assume "t = []"
    then show "fst (retrieveRecordedRequests e c req) = Inr []"
      by (simp add: retrieveRecordedRequests_fst res) }
  { assume "t \<noteq> [] \<and> JSON_parse e t = None"
    then show "fst (retrieveRecordedRequests e c req) = Inr []"
      by (simp add: retrieveRecordedRequests_fst res) }
  { assume "t \<noteq> [] \<and> JSON_parse e t = Some (JObj ps)"
    then show "fst (retrieveRecordedRequests e c req) = Inr []"
      by (simp add: retrieveRecordedRequests_fst res) }
qed

theorem retrieve_total_on_success_witness:
  "fst (retrieveRecordedRequests (resolves 200 []) client_localhost None) = Inr []
   \<and> fst (retrieveRecordedRequests (resolves 200 ''OK'') client_localhost None) = Inr []
   \<and> fst (retrieveRecordedRequests (resolves 200 ''{\"status\":\"ok\"}'') client_localhost
            (Some matcher_any)) = Inr []"
proof -
  have w1: "fst (retrieveRecordedRequests (resolves 200 []) client_localhost None) = Inr []"
    using conjunct2 [OF retrieve_total_on_success [of "resolves 200 []" client_localhost None
                          _ "\<lparr> status = 200, body_text = Inr [] \<rparr>" "[]"]]
    by (simp add: resolves_def ok_def)
  have w2: "fst (retrieveRecordedRequests (resolves 200 ''OK'') client_localhost None) = Inr []"
    using conjunct2 [OF retrieve_total_on_success [of "resolves 200 ''OK''" client_localhost None
                          _ "\<lparr> status = 200, body_text = Inr ''OK'' \<rparr>" "''OK''"]]
    by (simp add: resolves_def ok_def parse_table_def)
  have "fst (request (resolves 200 ''{\"status\":\"ok\"}'') client_localhost
               ''/mockserver/retrieve'' ''PUT'' (matcher_body (Some matcher_any))
               (Some [(''type'', ''REQUESTS'')])) = Inr (JObj [(''status'', JStr ''ok'')])"
    by (simp add: request_result request_try_def resolves_def ok_def parse_table_def)
  then have w3: "fst (retrieveRecordedRequests (resolves 200 ''{\"status\":\"ok\"}'')
                        client_localhost (Some matcher_any)) = Inr []"
    using conjunct1 [OF retrieve_total_on_success [of "resolves 200 ''{\"status\":\"ok\"}''"
                          client_localhost "Some matcher_any"
                          "JObj [(''status'', JStr ''ok'')]"]]
    by simp
  from w1 w2 w3 show ?thesis by simp
qed

section \<open>getStatus\<close>

text \<open>
  Claim C3. \<^verbatim>\<open>getStatus\<close> never propagates a connection-class failure. If its probe
  call fails with kind connection-failed or connection-timeout, it returns
  \<open>{host, port, reachable: false}\<close> without raising; a failure of any other kind
  propagates; and when the probe succeeds it returns \<open>{host, port, reachable: true}\<close>
  with the version taken from the \<^verbatim>\<open>version\<close> property of the response value when there
  is one. Host and port are the ones \<^verbatim>\<open>getStatus\<close> reads back from the base URL.
\<close>

theorem getStatus_outcomes:
  "(fst (request e c ''/mockserver/status'' ''PUT'' (ObjectBody []) None) = Inl err
      \<and> (code err = CONNECTION_FAILED \<or> code err = CONNECTION_TIMEOUT)
    \<longrightarrow> fst (getStatus e c) =
          Inr \<lparr> host = status_host c, port = status_port c, reachable = False,
                version = None \<rparr>)
   \<and> (fst (request e c ''/mockserver/status'' ''PUT'' (ObjectBody []) None) = Inl err
      \<and> code err \<noteq> CONNECTION_FAILED \<and> code err \<noteq> CONNECTION_TIMEOUT
    \<longrightarrow> fst (getStatus e c) = Inl err)
   \<and> (fst (request e c ''/mockserver/status'' ''PUT'' (ObjectBody []) None) = Inr v
    \<longrightarrow> fst (getStatus e c) =
          Inr \<lparr> host = status_host c, port = status_port c, reachable = True,
                version = (case v of JObj ps \<Rightarrow> map_of ps ''version'' | _ \<Rightarrow> None) \<rparr>)"
  by (auto simp: getStatus_fst version_of_def)

lemma status_host_client_localhost: "status_host client_localhost = Some ''localhost''"
  by code_simp

lemma status_port_client_localhost: "status_port client_localhost = Num 1080"
  by code_simp

theorem getStatus_outcomes_witness:
  "fst (getStatus (rejects (PlainError ''TypeError'' ''fetch failed: ECONNREFUSED''))
          client_localhost) =
     Inr \<lparr> host = Some ''localhost'', port = Num 1080, reachable = False, version = None \<rparr>
   \<and> fst (getStatus (rejects (PlainError ''AbortError'' ''This operation was aborted''))
            client_localhost) =
     Inr \<lparr> host = Some ''localhost'', port = Num 1080, reachable = False, version = None \<rparr>
   \<and> fst (getStatus (resolves 500 ''Internal Server Error'') client_localhost) =
     Inl \<lparr> code = MOCKSERVER_ERROR, message = ''MockServer error: Internal Server Error'',
           details = Some [(''statusCode'', JNum 500)] \<rparr>
   \<and> fst (getStatus (resolves 200 ''{\"version\":\"5.15.0\"}'') client_localhost) =
     Inr \<lparr> host = Some ''localhost'', port = Num 1080, reachable = True,
           version = Some (JStr ''5.15.0'') \<rparr>"
proof -
  let ?refused = "\<lparr> code = CONNECTION_FAILED,
                    message = ''Cannot connect to MockServer at http://localhost:1080'',
                    details = Some [(''originalError'', JStr ''fetch failed: ECONNREFUSED'')] \<rparr>"
  let ?timed_out = "\<lparr> code = CONNECTION_TIMEOUT,
                      message = ''Connection to MockServer timed out after 5000ms'',
                      details = Some [(''host'', JStr ''http://localhost:1080'')] \<rparr>"
  let ?remote = "\<lparr> code = MOCKSERVER_ERROR,
                   message = ''MockServer error: Internal Server Error'',
                   details = Some [(''statusCode'', JNum 500)] \<rparr>"
  have timeout_text: "number_to_string (timeout client_localhost) = ''5000''"
    by code_simp
  have "fst (request (rejects (PlainError ''TypeError'' ''fetch failed: ECONNREFUSED''))
               client_localhost ''/mockserver/status'' ''PUT'' (ObjectBody []) None) = Inl ?refused"
    by (simp add: request_rejected rejects_def request_catch_def baseUrl_client_localhost)
  then have w1: "fst (getStatus (rejects (PlainError ''TypeError'' ''fetch failed: ECONNREFUSED''))
                        client_localhost) =
       Inr \<lparr> host = Some ''localhost'', port = Num 1080, reachable = False, version = None \<rparr>"
    using conjunct1 [OF getStatus_outcomes
            [of "rejects (PlainError ''TypeError'' ''fetch failed: ECONNREFUSED'')"
                client_localhost ?refused]]
    by (simp add: status_host_client_localhost status_port_client_localhost)
  have "fst (request (rejects (PlainError ''AbortError'' ''This operation was aborted''))
               client_localhost ''/mockserver/status'' ''PUT'' (ObjectBody []) None) = Inl ?timed_out"
    by (simp add: request_rejected rejects_def request_catch_def baseUrl_client_localhost
          timeout_text)
  then have w2: "fst (getStatus (rejects (PlainError ''AbortError'' ''This operation was aborted''))
                        client_localhost) =
       Inr \<lparr> host = Some ''localhost'', port = Num 1080, reachable = False, version = None \<rparr>"
    using conjunct1 [OF getStatus_outcomes
            [of "rejects (PlainError ''AbortError'' ''This operation was aborted'')"
                client_localhost ?timed_out]]
    by (simp add: status_host_client_localhost status_port_client_localhost)
  have "fst (request (resolves 500 ''Internal Server Error'') client_localhost
               ''/mockserver/status'' ''PUT'' (ObjectBody []) None) = Inl ?remote"
    by (simp add: request_not_ok resolves_def ok_def errorText_def)
  then have w3: "fst (getStatus (resolves 500 ''Internal Server Error'') client_localhost) =
                   Inl ?remote"
    using conjunct1 [OF conjunct2 [OF getStatus_outcomes
            [of "resolves 500 ''Internal Server Error''" client_localhost ?remote]]]
    by simp
  have "fst (request (resolves 200 ''{\"version\":\"5.15.0\"}'') client_localhost
               ''/mockserver/status'' ''PUT'' (ObjectBody []) None) =
          Inr (JObj [(''version'', JStr ''5.15.0'')])"
    by (simp add: request_ok resolves_def ok_def parse_table_def)
  then have w4: "fst (getStatus (resolves 200 ''{\"version\":\"5.15.0\"}'') client_localhost) =
       Inr \<lparr> host = Some ''localhost'', port = Num 1080, reachable = True,
             version = Some (JStr ''5.15.0'') \<rparr>"
    using conjunct2 [OF conjunct2 [OF getStatus_outcomes
            [of "resolves 200 ''{\"version\":\"5.15.0\"}''" client_localhost _
                "JObj [(''version'', JStr ''5.15.0'')]"]]]
    by (simp add: status_host_client_localhost status_port_client_localhost)
  from w1 w2 w3 w4 show ?thesis by simp
qed

section \<open>Responses without a success status\<close>

text \<open>
  Claim C5 says that for \<^verbatim>\<open>createExpectation\<close>, \<^verbatim>\<open>clear\<close>, \<^verbatim>\<open>reset\<close> and
  \<^verbatim>\<open>retrieveRecordedRequests\<close> every response without a success status raises the generic
  remote error. The status test of \<^verbatim>\<open>request\<close> is shared by all operations, so status
  406 raises the verification-mismatch failure for these four as well.
\<close>

theorem status_406_is_not_remote_error:
  "\<not> ok \<lparr> status = 406, body_text = Inr ''Not Acceptable'' \<rparr>
   \<and> fst (createExpectation (resolves 406 ''Not Acceptable'') client_localhost
            expectation_get_test) =
       Inl \<lparr> code = VERIFICATION_FAILED, message = ''Verification failed: Not Acceptable'',
             details = Some [(''statusCode'', JNum 406)] \<rparr>
   \<and> fst (clear (resolves 406 ''Not Acceptable'') client_localhost None) =
       Inl \<lparr> code = VERIFICATION_FAILED, message = ''Verification failed: Not Acceptable'',
             details = Some [(''statusCode'', JNum 406)] \<rparr>
   \<and> fst (reset (resolves 406 ''Not Acceptable'') client_localhost) =
       Inl \<lparr> code = VERIFICATION_FAILED, message = ''Verification failed: Not Acceptable'',
             details = Some [(''statusCode'', JNum 406)] \<rparr>
   \<and> fst (retrieveRecordedRequests (resolves 406 ''Not Acceptable'') client_localhost None) =
       Inl \<lparr> code = VERIFICATION_FAILED, message = ''Verification failed: Not Acceptable'',
             details = Some [(''statusCode'', JNum 406)] \<rparr>"
  by (simp add: createExpectation_fst clear_fst reset_fst retrieveRecordedRequests_fst
        request_406 resolves_def ok_def errorText_def)

text \<open>
  Claim C5, amended. For \<^verbatim>\<open>createExpectation\<close>, \<^verbatim>\<open>clear\<close>, \<^verbatim>\<open>reset\<close> and
  \<^verbatim>\<open>retrieveRecordedRequests\<close>, every response without a success status raises a failure
  that carries the status code (in its details, as \<^verbatim>\<open>statusCode\<close>) and the body read as
  text (in its message; the placeholder \<^verbatim>\<open>Unknown error\<close> if the body cannot be read).
  Its kind is the generic remote error \<open>MOCKSERVER_ERROR\<close> for every such status except
  406, and \<open>VERIFICATION_FAILED\<close> for status 406.
\<close>

theorem non_success_status_raises:
  assumes "\<not> ok r"
  shows
    "(fetch e (request_call c ''/mockserver/expectation'' ''PUT'' (ExpectationBody x) None) = Inr r
      \<longrightarrow> fst (createExpectation e c x) =
            Inl \<lparr> code = (if status r = 406 then VERIFICATION_FAILED else MOCKSERVER_ERROR),
                  message = (if status r = 406 then ''Verification failed: ''
                             else ''MockServer error: '')
                            @ (case body_text r of Inr t \<Rightarrow> t | Inl _ \<Rightarrow> ''Unknown error''),
                  details = Some [(''statusCode'', JNum (int (status r)))] \<rparr>)
     \<and> (fetch e (request_call c ''/mockserver/clear'' ''PUT'' (matcher_body req) None) = Inr r
      \<longrightarrow> fst (clear e c req) =
            Inl \<lparr> code = (if status r = 406 then VERIFICATION_FAILED else MOCKSERVER_ERROR),
                  message = (if status r = 406 then ''Verification failed: ''
                             else ''MockServer error: '')
                            @ (case body_text r of Inr t \<Rightarrow> t | Inl _ \<Rightarrow> ''Unknown error''),
                  details = Some [(''statusCode'', JNum (int (status r)))] \<rparr>)
     \<and> (fetch e (request_call c ''/mockserver/reset'' ''PUT'' (ObjectBody []) None) = Inr r
      \<longrightarrow> fst (reset e c) =
            Inl \<lparr> code = (if status r = 406 then VERIFICATION_FAILED else MOCKSERVER_ERROR),
                  message = (if status r = 406 then ''Verification failed: ''
                             else ''MockServer error: '')
                            @ (case body_text r of Inr t \<Rightarrow> t | Inl _ \<Rightarrow> ''Unknown error''),
                  details = Some [(''statusCode'', JNum (int (status r)))] \<rparr>)
     \<and> (fetch e (request_call c ''/mockserver/retrieve'' ''PUT'' (matcher_body req)
                   (Some [(''type'', ''REQUESTS'')])) = Inr r
      \<longrightarrow> fst (retrieveRecordedRequests e c req) =
            Inl \<lparr> code = (if status r = 406 then VERIFICATION_FAILED else MOCKSERVER_ERROR),
                  message = (if status r = 406 then ''Verification failed: ''
                             else ''MockServer error: '')
                            @ (case body_text r of Inr t \<Rightarrow> t | Inl _ \<Rightarrow> ''Unknown error''),
                  details = Some [(''statusCode'', JNum (int (status r)))] \<rparr>)"
proof -
  have raised:
    "fst (request e c path meth b q) =
       Inl \<lparr> code = (if status r = 406 then VERIFICATION_FAILED else MOCKSERVER_ERROR),
             message = (if status r = 406 then ''Verification failed: ''
                        else ''MockServer error: '')
                       @ (case body_text r of Inr t \<Rightarrow> t | Inl _ \<Rightarrow> ''Unknown error''),
             details = Some [(''statusCode'', JNum (int (status r)))] \<rparr>"
    if "fetch e (request_call c path meth b q) = Inr r" for path meth b q
  proof (cases "status r = 406")
    case True
    with that show ?thesis
      by (simp add: request_406 errorText_def)
  next
    case False
    with that assms show ?thesis
      by (simp add: request_not_ok errorText_def)
  qed
  show ?thesis
    by (simp add: createExpectation_fst clear_fst reset_fst retrieveRecordedRequests_fst raised)
qed

theorem non_success_status_raises_witness:
  "fst (createExpectation (resolves 400 ''Invalid expectation'') client_localhost
          expectation_get_test) =
     Inl \<lparr> code = MOCKSERVER_ERROR, message = ''MockServer error: Invalid expectation'',
           details = Some [(''statusCode'', JNum 400)] \<rparr>
   \<and> fst (clear (resolves_unreadable 500 (PlainError ''TypeError'' ''terminated''))
            client_localhost None) =
     Inl \<lparr> code = MOCKSERVER_ERROR, message = ''MockServer error: Unknown error'',
           details = Some [(''statusCode'', JNum 500)] \<rparr>
   \<and> fst (reset (resolves 406 ''Not Acceptable'') client_localhost) =
     Inl \<lparr> code = VERIFICATION_FAILED, message = ''Verification failed: Not Acceptable'',
           details = Some [(''statusCode'', JNum 406)] \<rparr>
   \<and> fst (retrieveRecordedRequests (resolves 404 ''Not Found'') client_localhost None) =
     Inl \<lparr> code = MOCKSERVER_ERROR, message = ''MockServer error: Not Found'',
           details = Some [(''statusCode'', JNum 404)] \<rparr>"
proof -
  have n400: "\<not> ok \<lparr> status = 400, body_text = Inr ''Invalid expectation'' \<rparr>"
    and n500: "\<not> ok \<lparr> status = 500, body_text = Inl (PlainError ''TypeError'' ''terminated'') \<rparr>"
    and n406: "\<not> ok \<lparr> status = 406, body_text = Inr ''Not Acceptable'' \<rparr>"
    and n404: "\<not> ok \<lparr> status = 404, body_text = Inr ''Not Found'' \<rparr>"
    by (simp_all add: ok_def)
  have w1: "fst (createExpectation (resolves 400 ''Invalid expectation'') client_localhost
                   expectation_get_test) =
      Inl \<lparr> code = MOCKSERVER_ERROR, message = ''MockServer error: Invalid expectation'',
            details = Some [(''statusCode'', JNum 400)] \<rparr>"
    using conjunct1 [OF non_success_status_raises [OF n400,
            of "resolves 400 ''Invalid expectation''" client_localhost expectation_get_test]]
    by (simp add: resolves_def)
  have w2: "fst (clear (resolves_unreadable 500 (PlainError ''TypeError'' ''terminated''))
                   client_localhost None) =
      Inl \<lparr> code = MOCKSERVER_ERROR, message = ''MockServer error: Unknown error'',
            details = Some [(''statusCode'', JNum 500)] \<rparr>"
    using conjunct1 [OF conjunct2 [OF non_success_status_raises [OF n500,
            of "resolves_unreadable 500 (PlainError ''TypeError'' ''terminated'')"
               client_localhost _ None]]]
    by (simp add: resolves_unreadable_def)
  have w3: "fst (reset (resolves 406 ''Not Acceptable'') client_localhost) =
      Inl \<lparr> code = VERIFICATION_FAILED, message = ''Verification failed: Not Acceptable'',
            details = Some [(''statusCode'', JNum 406)] \<rparr>"
    using conjunct1 [OF conjunct2 [OF conjunct2 [OF non_success_status_raises [OF n406,
            of "resolves 406 ''Not Acceptable''" client_localhost]]]]
    by (simp add: resolves_def)
  have w4: "fst (retrieveRecordedRequests (resolves 404 ''Not Found'') client_localhost None) =
      Inl \<lparr> code = MOCKSERVER_ERROR, message = ''MockServer error: Not Found'',
            details = Some [(''statusCode'', JNum 404)] \<rparr>"
    using conjunct2 [OF conjunct2 [OF conjunct2 [OF non_success_status_raises [OF n404,
            of "resolves 404 ''Not Found''" client_localhost _ None]]]]
    by (simp add: resolves_def)
  from w1 w2 w3 w4 show ?thesis by simp
qed

section \<open>Failures before a response\<close>

text \<open>
  Claim C2 says that a connection-failed failure carries the configured base address in
  its detail. The detail map of that failure holds the message of the underlying error
  under \<^verbatim>\<open>originalError\<close> and nothing else; the base address is part of its message.
  Here \<^verbatim>\<open>fetch\<close> rejects with \<^verbatim>\<open>TypeError: fetch failed\<close>.
\<close>

theorem connection_failed_detail_has_no_base_address:
  "baseUrl client_localhost = ''http://localhost:1080''
   \<and> fst (request (rejects (PlainError ''TypeError'' ''fetch failed'')) client_localhost
            ''/mockserver/reset'' ''PUT'' (ObjectBody []) None) =
       Inl \<lparr> code = CONNECTION_FAILED,
             message = ''Cannot connect to MockServer at http://localhost:1080'',
             details = Some [(''originalError'', JStr ''fetch failed'')] \<rparr>
   \<and> JStr (baseUrl client_localhost) \<notin> snd ` set [(''originalError'', JStr ''fetch failed'')]"
  by (simp add: request_rejected rejects_def request_catch_def baseUrl_client_localhost)

text \<open>
  Claim C2, amended. For every operation, a failure that arises before any response is
  observed is classified exactly once, by \<^verbatim>\<open>request\<close>: a failure that is already a
  \<open>ToolError\<close> is raised again unchanged; a cancellation signal (an error named
  \<^verbatim>\<open>AbortError\<close>) gives connection-timeout, with the base address in its detail map under
  \<^verbatim>\<open>host\<close>; any other error whose message contains \<^verbatim>\<open>ECONNREFUSED\<close>,
  \<^verbatim>\<open>fetch failed\<close> or \<^verbatim>\<open>network\<close> gives connection-failed, with the base address in
  its message and the message of the underlying error in its detail map under
  \<^verbatim>\<open>originalError\<close>; every other failure gives unknown-error.
\<close>

theorem request_classifies_rejection:
  assumes "fetch e (request_call c path meth b q) = Inl err"
  shows
    "(err = Tool te \<longrightarrow> fst (request e c path meth b q) = Inl te)
     \<and> (err = PlainError name msg \<and> name = ''AbortError''
        \<longrightarrow> fst (request e c path meth b q) =
              Inl \<lparr> code = CONNECTION_TIMEOUT,
                    message = ''Connection to MockServer timed out after ''
                              @ number_to_string (timeout c) @ ''ms'',
                    details = Some [(''host'', JStr (baseUrl c))] \<rparr>)
     \<and> (err = PlainError name msg \<and> name \<noteq> ''AbortError''
          \<and> (string_includes msg ''ECONNREFUSED'' \<or> string_includes msg ''fetch failed''
               \<or> string_includes msg ''network'')
        \<longrightarrow> fst (request e c path meth b q) =
              Inl \<lparr> code = CONNECTION_FAILED,
                    message = ''Cannot connect to MockServer at '' @ baseUrl c,
                    details = Some [(''originalError'', JStr msg)] \<rparr>)
     \<and> (err = PlainError name msg \<and> name \<noteq> ''AbortError''
          \<and> \<not> string_includes msg ''ECONNREFUSED'' \<and> \<not> string_includes msg ''fetch failed''
          \<and> \<not> string_includes msg ''network''
        \<longrightarrow> fst (request e c path meth b q) =
              Inl \<lparr> code = UNKNOWN_ERROR, message = ''Unexpected error: '' @ msg,
                    details = None \<rparr>)
     \<and> (err = NonError s
        \<longrightarrow> fst (request e c path meth b q) =
              Inl \<lparr> code = UNKNOWN_ERROR, message = ''Unexpected error: '' @ s,
                    details = None \<rparr>)"
  using request_rejected [OF assms] by (simp add: request_catch_def)

theorem request_classifies_rejection_witness:
  "fst (request (rejects (Tool \<lparr> code = INVALID_PARAMETERS, message = ''bad input'',
                                 details = None \<rparr>))
          client_localhost ''/mockserver/clear'' ''PUT'' (ObjectBody []) None) =
     Inl \<lparr> code = INVALID_PARAMETERS, message = ''bad input'', details = None \<rparr>
   \<and> fst (request (rejects (PlainError ''AbortError'' ''This operation was aborted''))
            client_localhost ''/mockserver/expectation'' ''PUT''
            (ExpectationBody expectation_get_test) None) =
     Inl \<lparr> code = CONNECTION_TIMEOUT,
           message = ''Connection to MockServer timed out after 5000ms'',
           details = Some [(''host'', JStr ''http://localhost:1080'')] \<rparr>
   \<and> fst (request (rejects (PlainError ''Error'' ''fetch failed: ECONNREFUSED''))
            client_localhost ''/mockserver/expectation'' ''PUT''
            (ExpectationBody expectation_get_test) None) =
     Inl \<lparr> code = CONNECTION_FAILED,
           message = ''Cannot connect to MockServer at http://localhost:1080'',
           details = Some [(''originalError'', JStr ''fetch failed: ECONNREFUSED'')] \<rparr>
   \<and> fst (request (rejects (PlainError ''TypeError'' ''Invalid URL''))
            client_localhost ''/mockserver/status'' ''PUT'' (ObjectBody []) None) =
     Inl \<lparr> code = UNKNOWN_ERROR, message = ''Unexpected error: Invalid URL'',
           details = None \<rparr>
   \<and> fst (request (rejects (NonError ''network down''))
            client_localhost ''/mockserver/reset'' ''PUT'' (ObjectBody []) None) =
     Inl \<lparr> code = UNKNOWN_ERROR, message = ''Unexpected error: network down'',
           details = None \<rparr>"
proof -
  have rej: "fetch (rejects err) call = Inl err" for err call
    by (simp add: rejects_def)
  have timeout_text: "number_to_string (timeout client_localhost) = ''5000''"
    by code_simp
  let ?te = "\<lparr> code = INVALID_PARAMETERS, message = ''bad input'', details = None \<rparr>"
  have w1: "fst (request (rejects (Tool ?te)) client_localhost ''/mockserver/clear'' ''PUT''
                   (ObjectBody []) None) = Inl ?te"
    using request_classifies_rejection [of "rejects (Tool ?te)" client_localhost
            "''/mockserver/clear''" "''PUT''" "ObjectBody []" None "Tool ?te" ?te]
    by (simp add: rej)
  have w2: "fst (request (rejects (PlainError ''AbortError'' ''This operation was aborted''))
                   client_localhost ''/mockserver/expectation'' ''PUT''
                   (ExpectationBody expectation_get_test) None) =
      Inl \<lparr> code = CONNECTION_TIMEOUT,
            message = ''Connection to MockServer timed out after 5000ms'',
            details = Some [(''host'', JStr ''http://localhost:1080'')] \<rparr>"
    using request_classifies_rejection
            [of "rejects (PlainError ''AbortError'' ''This operation was aborted'')" client_localhost
               "''/mockserver/expectation''" "''PUT''" "ExpectationBody expectation_get_test"
               None "PlainError ''AbortError'' ''This operation was aborted''" _ "''AbortError''" "''This operation was aborted''"]
    by (simp add: rej timeout_text baseUrl_client_localhost)
  have w3: "fst (request (rejects (PlainError ''Error'' ''fetch failed: ECONNREFUSED''))
                   client_localhost ''/mockserver/expectation'' ''PUT''
                   (ExpectationBody expectation_get_test) None) =
      Inl \<lparr> code = CONNECTION_FAILED,
            message = ''Cannot connect to MockServer at http://localhost:1080'',
            details = Some [(''originalError'', JStr ''fetch failed: ECONNREFUSED'')] \<rparr>"
    using request_classifies_rejection
            [of "rejects (PlainError ''Error'' ''fetch failed: ECONNREFUSED'')" client_localhost
               "''/mockserver/expectation''" "''PUT''" "ExpectationBody expectation_get_test"
               None "PlainError ''Error'' ''fetch failed: ECONNREFUSED''" _ "''Error''" "''fetch failed: ECONNREFUSED''"]
    by (simp add: rej baseUrl_client_localhost)
  have w4: "fst (request (rejects (PlainError ''TypeError'' ''Invalid URL''))
                   client_localhost ''/mockserver/status'' ''PUT'' (ObjectBody []) None) =
      Inl \<lparr> code = UNKNOWN_ERROR, message = ''Unexpected error: Invalid URL'',
            details = None \<rparr>"
    using request_classifies_rejection
            [of "rejects (PlainError ''TypeError'' ''Invalid URL'')" client_localhost
               "''/mockserver/status''" "''PUT''" "ObjectBody []"
               None "PlainError ''TypeError'' ''Invalid URL''" _ "''TypeError''" "''Invalid URL''"]
    by (simp add: rej)
  have w5: "fst (request (rejects (NonError ''network down''))
                   client_localhost ''/mockserver/reset'' ''PUT'' (ObjectBody []) None) =
      Inl \<lparr> code = UNKNOWN_ERROR, message = ''Unexpected error: network down'',
            details = None \<rparr>"
    using request_classifies_rejection
            [of "rejects (NonError ''network down'')" client_localhost
               "''/mockserver/reset''" "''PUT''" "ObjectBody []"
               None "NonError ''network down''" _ _ _ "''network down''"]
    by (simp add: rej)
  from w1 w2 w3 w4 w5 show ?thesis by simp
qed

section \<open>Host and port of the status\<close>

text \<open>
  Where \<^verbatim>\<open>getStatus\<close> does read the configuration back: a host without a colon and a
  port that is not negative.
\<close>

lemma replace_first_prefix: "replace_first (pat @ s) pat [] = s"
proof (cases "pat @ s")
  case Nil
  then show ?thesis by simp
next
  case (Cons a rest)
  have "prefix pat (a # rest)"
    unfolding Cons [symmetric] by simp
  then have "replace_first (a # rest) pat [] = drop (length pat) (a # rest)"
    by simp
  then show ?thesis
    unfolding Cons [symmetric] by simp
qed

lemma split_no_separator: "sep \<notin> set s \<Longrightarrow> split s sep = [s]"
  by (induction s) auto

lemma split_at_first_separator:
  "sep \<notin> set s \<Longrightarrow> split (s @ sep # t) sep = s # split t sep"
  by (induction s) auto

lemma digit_char_is_digit: "d < 10 \<Longrightarrow> is_digit (digit_char d)"
  by (simp add: is_digit_def digit_char_def)

lemma digit_value_digit_char: "d < 10 \<Longrightarrow> digit_value (digit_char d) = d"
  by (simp add: digit_value_def digit_char_def)

lemma digits_not_empty: "digits n \<noteq> []"
  by (subst digits.simps) simp

lemma digits_are_digits: "\<forall>ch \<in> set (digits n). is_digit ch"
proof (induction n rule: digits.induct)
  case (1 n)
  show ?case
  proof (cases "n < 10")
    case True
    then show ?thesis
      by (subst digits.simps) (simp add: digit_char_is_digit)
  next
    case False
    with "1" show ?thesis
      by (subst digits.simps) (simp add: digit_char_is_digit)
  qed
qed

lemma digits_value_snoc: "digits_value (ds @ [d]) = digits_value ds * 10 + digit_value d"
  by (simp add: digits_value_def)

lemma digits_value_digits: "digits_value (digits n) = n"
proof (induction n rule: digits.induct)
  case (1 n)
  show ?case
  proof (cases "n < 10")
    case True
    then show ?thesis
      by (subst digits.simps) (simp add: digits_value_def digit_value_digit_char)
  next
    case False
    with "1" have "digits_value (digits (n div 10)) = n div 10"
      by simp
    with False show ?thesis
      by (subst digits.simps) (simp add: digits_value_snoc digit_value_digit_char)
  qed
qed

lemma is_digit_not_special:
  "is_digit ch \<Longrightarrow> \<not> is_space ch \<and> ch \<noteq> CHR ''-'' \<and> ch \<noteq> CHR ''+'' \<and> ch \<noteq> CHR '':''"
  by (auto simp: is_digit_def is_space_def)

lemma parseInt_digits: "parseInt (digits n) = Num (int n)"
proof -
  obtain d ds where ds: "digits n = d # ds"
    using digits_not_empty [of n] by (cases "digits n") auto
  have all: "\<forall>ch \<in> set (d # ds). is_digit ch"
    using digits_are_digits [of n] ds by simp
  then have d: "\<not> is_space d" "d \<noteq> CHR ''-''" "d \<noteq> CHR ''+''"
    using is_digit_not_special [of d] by simp_all
  have tw: "takeWhile is_digit (d # ds) = d # ds"
    using all by (simp add: takeWhile_eq_all_conv)
  have "parseInt (d # ds) = Num (int (digits_value (d # ds)))"
    using d tw by (simp add: parseInt_def Let_def)
  then show ?thesis
    using ds digits_value_digits [of n] by simp
qed

lemma status_round_trip:
  assumes "CHR '':'' \<notin> set h" and "0 \<le> p"
  shows "status_host (new_MockServerClient \<lparr> cfg_host = h, cfg_port = p, cfg_timeout = t \<rparr>)
           = Some h"
    and "status_port (new_MockServerClient \<lparr> cfg_host = h, cfg_port = p, cfg_timeout = t \<rparr>)
           = Num p"
proof -
  let ?c = "new_MockServerClient \<lparr> cfg_host = h, cfg_port = p, cfg_timeout = t \<rparr>"
  have no_colon: "CHR '':'' \<notin> set (digits (nat p))"
    using digits_are_digits [of "nat p"] is_digit_not_special by blast
  have "baseUrl ?c = ''http://'' @ (h @ CHR '':'' # digits (nat p))"
    using assms(2) by (simp add: new_MockServerClient_def number_to_string_def)
  then have "status_parts ?c = split (h @ CHR '':'' # digits (nat p)) CHR '':''"
    unfolding status_parts_def by (simp only: replace_first_prefix)
  then have parts: "status_parts ?c = [h, digits (nat p)]"
    using assms(1) no_colon by (simp add: split_at_first_separator split_no_separator)
  show "status_host ?c = Some h"
    by (simp add: status_host_def parts)
  show "status_port ?c = Num p"
    using assms(2) by (simp add: status_port_def parts parseInt_digits)
qed

text \<open>
  Claim C9. The host and port of the status that \<^verbatim>\<open>getStatus\<close> returns should equal the
  host string and the port given at construction, for every host string and every port
  from 1 to 65535. \<^verbatim>\<open>getStatus\<close> splits the base URL at every colon, so for a host that
  contains one it reports the text before the host's first colon as the host and parses
  the text after it as the port. For the host \<^verbatim>\<open>[::1]\<close> and the port 1080 the status
  has host \<^verbatim>\<open>[\<close> and port \<open>NaN\<close>, reachable or not.
\<close>

theorem getStatus_host_with_colon:
  "client_ipv6 = \<lparr> baseUrl = ''http://[::1]:1080'', timeout = 5000 \<rparr>
   \<and> status_parts client_ipv6 = [''['', [], ''1]'', ''1080'']
   \<and> fst (getStatus (resolves 200 ''{\"version\":\"5.15.0\"}'') client_ipv6) =
       Inr \<lparr> host = Some ''['', port = NaN, reachable = True,
             version = Some (JStr ''5.15.0'') \<rparr>
   \<and> fst (getStatus (rejects (PlainError ''TypeError'' ''fetch failed: ECONNREFUSED''))
            client_ipv6) =
       Inr \<lparr> host = Some ''['', port = NaN, reachable = False, version = None \<rparr>"
proof -
  have c: "client_ipv6 = \<lparr> baseUrl = ''http://[::1]:1080'', timeout = 5000 \<rparr>"
    by code_simp
  have parts: "status_parts client_ipv6 = [''['', [], ''1]'', ''1080'']"
    by code_simp
  have h: "status_host client_ipv6 = Some ''[''"
    by (simp add: status_host_def parts)
  have p: "status_port client_ipv6 = NaN"
    by (simp add: status_port_def parts parseInt_def is_space_def is_digit_def)
  have up: "fst (request (resolves 200 ''{\"version\":\"5.15.0\"}'') client_ipv6
                   ''/mockserver/status'' ''PUT'' (ObjectBody []) None) =
              Inr (JObj [(''version'', JStr ''5.15.0'')])"
    by (simp add: request_ok resolves_def ok_def parse_table_def)
  have down: "code (request_catch client_ipv6
                      (PlainError ''TypeError'' ''fetch failed: ECONNREFUSED'')) =
                CONNECTION_FAILED"
    by (simp add: request_catch_def)
  have w1: "fst (getStatus (resolves 200 ''{\"version\":\"5.15.0\"}'') client_ipv6) =
       Inr \<lparr> host = Some ''['', port = NaN, reachable = True,
             version = Some (JStr ''5.15.0'') \<rparr>"
    by (simp add: getStatus_fst up h p version_of_def)
  have w2: "fst (getStatus (rejects (PlainError ''TypeError'' ''fetch failed: ECONNREFUSED''))
                   client_ipv6) =
       Inr \<lparr> host = Some ''['', port = NaN, reachable = False, version = None \<rparr>"
    by (simp add: getStatus_fst request_rejected rejects_def down h p)
  from c parts w1 w2 show ?thesis by simp
qed

end
